theory Spec2Isabelle
  imports Main "HOL-Library.Word"
begin

unbundle bit_operations_syntax

section \<open>Shared Go notions\<close>

type_synonym uint16 = "16 word"
type_synonym uint32 = "32 word"
type_synonym uint64 = "64 word"

text \<open>
  A Go \<open>error\<close> value. \<open>SQLError\<close> is what \<open>errors.NewSQLError(number, sqlState, format,
  args...)\<close> builds (number, SQL state, formatted message); \<open>Failure\<close> is any other error
  a collaborator hands over; \<open>WithStack\<close> is the wrapper of \<open>errors.WithStack\<close>.
  A nil error is \<open>None\<close> of \<open>error option\<close>.
\<close>

datatype error =
    SQLError uint16 string string
  | Failure string
  | WithStack error

text \<open>How a call ends: it returns its results, or it panics (nil dereference, failed
  type assertion, slice out of range).\<close>

datatype 'a outcome = Returned 'a | Panicked

section \<open>pkg/runtime/ast/function.go: CastFunction\<close>

type_synonym CastType = "8 word"

record ConvertDataType =
  cd_typ :: CastType
  dimension0 :: "64 word"
  dimension1 :: "64 word"
  charset :: string

text \<open>
  The field \<open>cast interface{}\<close> holds a value of any dynamic type. The two type
  assertions of the file distinguish \<open>string\<close> and \<open>*ConvertDataType\<close> (a pointer,
  possibly nil: \<open>None\<close>); the untyped nil and every other dynamic type fail both.
\<close>

datatype cast_value =
    NilCast
  | StringCast string
  | ConvertDataTypeCast "ConvertDataType option"
  | OtherCast

record 'e CastFunction =
  isCast :: bool
  src :: 'e
  cast :: cast_value

text \<open>\<open>charset, ok := c.cast.(string)\<close>: the zero value and false when the assertion fails.\<close>

definition GetCharset :: "'e CastFunction \<Rightarrow> string \<times> bool" where
  "GetCharset c = (case cast c of StringCast s \<Rightarrow> (s, True) | _ \<Rightarrow> ([], False))"

text \<open>\<open>t, ok := c.cast.(*ConvertDataType)\<close>.\<close>

definition GetCast :: "'e CastFunction \<Rightarrow> ConvertDataType option \<times> bool" where
  "GetCast c = (case cast c of ConvertDataTypeCast t \<Rightarrow> (t, True) | _ \<Rightarrow> (None, False))"

section \<open>pkg/runtime/function/sin.go: sinFunc\<close>

datatype sinFunc = sinFunc

text \<open>
  A \<open>proto.Valuer\<close> is modelled by what its \<open>Value(ctx)\<close> returns: the Go pair
  \<open>(proto.Value, error)\<close>, either of which may be nil. The value type \<open>'v\<close> is left
  open. \<open>sinOf\<close> stands for the last two lines of \<open>Apply\<close>,
  \<open>proto.NewValueFloat64(math.Sin(f))\<close> with \<open>f, _ := param.Float64()\<close>: floating point
  of packages outside this file.
\<close>

definition Apply ::
  "sinFunc \<Rightarrow> ('v \<Rightarrow> 'v) \<Rightarrow> ('v option \<times> error option) list \<Rightarrow> ('v option \<times> error option) outcome"
where
  "Apply s sinOf inputs =
     (case inputs of
        [] \<Rightarrow> Panicked
      | x # _ \<Rightarrow>
          (let (param, err) = x in
           case err of
             Some e \<Rightarrow> Returned (None, Some (WithStack e))
           | None \<Rightarrow>
               (case param of
                  None \<Rightarrow> Returned (None, None)
                | Some p \<Rightarrow> Returned (Some (sinOf p), None))))"

definition NumInput :: "sinFunc \<Rightarrow> int" where
  "NumInput s = 1"

section \<open>pkg/mysql/execute_handle.go: the data the handlers work on\<close>

text \<open>
  Modelled from the spec: the constants of \<open>pkg/constants/mysql\<close> are not under src. Their
  values are those of the MySQL client/server protocol the spec names (scenario S2 gives
  1049 for \<open>ER_BAD_DB_ERROR\<close>).
\<close>

definition ERUnknownComError :: uint16 where "ERUnknownComError = 1047"
definition ERBadNullError :: uint16 where "ERBadNullError = 1048"
definition ERBadDb :: uint16 where "ERBadDb = 1049"
definition SSUnknownSQLState :: string where "SSUnknownSQLState = ''HY000''"
definition SSUnknownComError :: string where "SSUnknownComError = ''08S01''"
definition ServerMoreResultsExists :: uint16 where "ServerMoreResultsExists = 0x0008"
definition CapabilityClientMultiStatements :: uint32 where
  "CapabilityClientMultiStatements = 0x00010000"

text \<open>\<open>errors.NewSQLError(number, sqlState, format, args...)\<close> of \<open>pkg/mysql/errors\<close>
  (not under src): the error that holds its arguments, the message already formatted.\<close>

definition NewSQLError :: "uint16 \<Rightarrow> string \<Rightarrow> string \<Rightarrow> error" where
  "NewSQLError number sqlState msg = SQLError number sqlState msg"

text \<open>\<open>fmt.Sprintf("Unknown database '%s'", db)\<close>; \<open>CHR 0x27\<close> is the single quote.\<close>

definition unknown_database :: "string \<Rightarrow> string" where
  "unknown_database db = ''Unknown database '' @ CHR 0x27 # db @ [CHR 0x27]"

text \<open>
  Modelled from the spec: the types of \<open>pkg/proto\<close> (values, fields, datasets, results,
  statements, the command context) are not under src; they are modelled as section 3 of
  the spec describes them, as far as the handlers look into them. A \<open>proto.Field\<close> is
  an interface: \<open>Field\<close> is this package's \<open>*Field\<close>, the only implementation the type
  assertion of \<open>handleFieldList\<close> accepts, \<open>ForeignField\<close> any other. \<open>Dataset\<close> of a
  result is the Go pair that \<open>result.Dataset()\<close> returns.
\<close>

datatype proto_Value = ValueNull | ValueInt64 "64 word" | ValueString string

datatype proto_Field = Field string | ForeignField string

datatype proto_Dataset = proto_Dataset (Fields: "proto_Field list") (Rows: "proto_Value list list")

record proto_Result =
  Dataset :: "proto_Dataset option \<times> error option"
  RowsAffected :: uint64
  LastInsertId :: uint64

text \<open>A Go map made by \<open>make(map[string]proto.Value, hint)\<close>: the capacity hint it was
  allocated with and its entries. A nil map is \<open>None\<close> of \<open>go_map option\<close>.\<close>

datatype go_map = GoMap (hint: nat) (entries: "(string \<times> proto_Value) list")

datatype hint_Hint = Hint string

text \<open>The parsed statement of the parser collaborator, with what \<open>Hints()\<close> yields.\<close>

datatype ast_StmtNode = StmtNode (node_Hints: "string list")

record proto_Stmt =
  StatementID :: uint32
  PrepareStmt :: string
  ParamsCount :: uint16
  ParamsType :: "32 word list"
  BindVars :: "go_map option"
  Hints :: "hint_Hint option list"
  StmtNode_of :: "ast_StmtNode option"

record proto_Context =
  ConnectionID :: uint32
  Data :: string

text \<open>
  Modelled from the spec: the connection and its wire codec (sections 4.A and 4.B) are not
  under src. What a handler does to the connection is recorded in order; a write is
  recorded as the call that was made, with its arguments, and either succeeds
  (\<open>Wrote\<close>) or fails with an error (\<open>WriteFailed\<close>).
\<close>

datatype field_list_item = ColumnDefinition string | EOFPacket uint16 uint16

datatype packet =
    ErrorPacketFromError error
  | ErrorPacket uint16 string string string
  | OKPacket uint64 uint64 uint16 uint16
  | FieldsPacket "proto_Field list"
  | DatasetPacket proto_Dataset
  | DatasetBinaryPacket proto_Dataset
  | EndResult bool uint64 uint64 uint16
  | PacketForFieldList "field_list_item list"
  | PreparePacket proto_Stmt

datatype event =
    RecycleReadPacket
  | StartWriterBuffering
  | EndWriterBuffering
  | Wrote packet
  | WriteFailed packet error
  | DatasetClosed

text \<open>
  The connection: the fields the handlers read and assign, the record \<open>wire\<close> of what
  was done to it, and \<open>faults\<close>, the results of the write calls still to come (the head is
  the next one; a write beyond the end of the list succeeds).
\<close>

record Conn =
  Schema :: string
  Tenant :: string
  Capabilities :: uint32
  StatusFlags :: uint16
  wire :: "event list"
  faults :: "error option list"

text \<open>The listener: the statement registry (a \<open>sync.Map\<close>) and the statement id counter
  (an atomic \<open>uint32\<close>).\<close>

record Listener =
  stmts :: "uint32 \<rightharpoonup> proto_Stmt"
  statementID :: uint32

definition emit :: "event \<Rightarrow> Conn \<Rightarrow> Conn" where
  "emit ev c = c\<lparr>wire := wire c @ [ev]\<rparr>"

definition recycleReadPacket :: "Conn \<Rightarrow> Conn" where
  "recycleReadPacket c = emit RecycleReadPacket c"

definition startWriterBuffering :: "Conn \<Rightarrow> Conn" where
  "startWriterBuffering c = emit StartWriterBuffering c"

text \<open>The flush. Its error is only logged by the handlers, so it is not modelled.\<close>

definition endWriterBuffering :: "Conn \<Rightarrow> Conn" where
  "endWriterBuffering c = emit EndWriterBuffering c"

definition writePacket :: "packet \<Rightarrow> Conn \<Rightarrow> error option \<times> Conn" where
  "writePacket p c =
     (case faults c of
        [] \<Rightarrow> (None, emit (Wrote p) c)
      | None # fs \<Rightarrow> (None, emit (Wrote p) (c\<lparr>faults := fs\<rparr>))
      | Some err # fs \<Rightarrow> (Some err, emit (WriteFailed p err) (c\<lparr>faults := fs\<rparr>)))"

definition writeErrorPacketFromError :: "error \<Rightarrow> Conn \<Rightarrow> error option \<times> Conn" where
  "writeErrorPacketFromError err c = writePacket (ErrorPacketFromError err) c"

definition writeErrorPacket ::
  "uint16 \<Rightarrow> string \<Rightarrow> string \<Rightarrow> string \<Rightarrow> Conn \<Rightarrow> error option \<times> Conn" where
  "writeErrorPacket code sqlState format arg c = writePacket (ErrorPacket code sqlState format arg) c"

definition writeOKPacket ::
  "uint64 \<Rightarrow> uint64 \<Rightarrow> uint16 \<Rightarrow> uint16 \<Rightarrow> Conn \<Rightarrow> error option \<times> Conn" where
  "writeOKPacket affectedRows lastInsertID flags warnings c =
     writePacket (OKPacket affectedRows lastInsertID flags warnings) c"

definition writeFields :: "proto_Field list \<Rightarrow> Conn \<Rightarrow> error option \<times> Conn" where
  "writeFields fs c = writePacket (FieldsPacket fs) c"

definition writeDataset :: "proto_Dataset \<Rightarrow> Conn \<Rightarrow> error option \<times> Conn" where
  "writeDataset ds c = writePacket (DatasetPacket ds) c"

definition writeDatasetBinary :: "proto_Dataset \<Rightarrow> Conn \<Rightarrow> error option \<times> Conn" where
  "writeDatasetBinary ds c = writePacket (DatasetBinaryPacket ds) c"

definition writeEndResult ::
  "bool \<Rightarrow> uint64 \<Rightarrow> uint64 \<Rightarrow> uint16 \<Rightarrow> Conn \<Rightarrow> error option \<times> Conn" where
  "writeEndResult hasMore affectedRows lastInsertID warnings c =
     writePacket (EndResult hasMore affectedRows lastInsertID warnings) c"

definition writePacketForFieldList :: "field_list_item list \<Rightarrow> Conn \<Rightarrow> error option \<times> Conn" where
  "writePacketForFieldList des c = writePacket (PacketForFieldList des) c"

definition writePrepare :: "proto_Stmt \<Rightarrow> Conn \<Rightarrow> error option \<times> Conn" where
  "writePrepare stmt c = writePacket (PreparePacket stmt) c"

section \<open>handleInitDB\<close>

text \<open>The membership loop over the tenant's clusters.\<close>

fun allow_loop :: "string \<Rightarrow> string list \<Rightarrow> bool" where
  "allow_loop db [] = False"
| "allow_loop db (it # rest) = (if db = it then True else allow_loop db rest)"

text \<open>
  \<open>GetClusters\<close> is the tenant manager, \<open>ExecuteUseDB\<close> what the executor's call returns.
  \<open>ctx.Data[1:]\<close> panics on an empty packet.
\<close>

definition handleInitDB ::
  "(string \<Rightarrow> string list) \<Rightarrow> error option \<Rightarrow> Conn \<Rightarrow> proto_Context
     \<Rightarrow> error option outcome \<times> Conn"
where
  "handleInitDB GetClusters ExecuteUseDB c ctx =
     (case Data ctx of
        [] \<Rightarrow> (Panicked, c)
      | _ # db \<Rightarrow>
          (let c1 = recycleReadPacket c;
               allow = allow_loop db (GetClusters (Tenant c1))
           in if \<not> allow then
                (case writeErrorPacketFromError (NewSQLError ERBadDb [] (unknown_database db)) c1 of
                   (Some err, c2) \<Rightarrow> (Returned (Some err), c2)
                 | (None, c2) \<Rightarrow> (Returned None, c2))
              else
                (let c2 = c1\<lparr>Schema := db\<rparr> in
                 case ExecuteUseDB of
                   Some err \<Rightarrow> (Returned (Some err), c2)
                 | None \<Rightarrow>
                     (case writeOKPacket 0 0 (StatusFlags c2) 0 c2 of
                        (Some err, c3) \<Rightarrow> (Returned (Some err), c3)
                      | (None, c3) \<Rightarrow> (Returned None, c3)))))"

section \<open>handleQuery\<close>

text \<open>The body of the closure \<open>handleOnce\<close>, after its deferred flush is registered.\<close>

definition handleOnce_body ::
  "Conn \<Rightarrow> proto_Result option \<Rightarrow> error option \<Rightarrow> uint16 \<Rightarrow> bool \<Rightarrow> error option \<times> Conn"
where
  "handleOnce_body c result failure warn hasMore =
     (case failure of
        Some f \<Rightarrow> writeErrorPacketFromError f c
      | None \<Rightarrow>
          (case result of
             None \<Rightarrow>
               writeErrorPacketFromError (NewSQLError ERBadNullError SSUnknownSQLState ''un dataset'') c
           | Some res \<Rightarrow>
               (case Dataset res of
                  (ds, Some f) \<Rightarrow> writeErrorPacketFromError f c
                | (None, None) \<Rightarrow>
                    (let statusFlag = StatusFlags c;
                         statusFlag = (if hasMore then statusFlag OR ServerMoreResultsExists
                                       else statusFlag)
                     in writeOKPacket (RowsAffected res) (LastInsertId res) statusFlag warn c)
                | (Some ds, None) \<Rightarrow>
                    (case writeFields (Fields ds) c of
                       (Some err, c1) \<Rightarrow> (Some err, c1)
                     | (None, c1) \<Rightarrow>
                         (case writeDataset ds c1 of
                            (Some err, c2) \<Rightarrow> (Some err, c2)
                          | (None, c2) \<Rightarrow> writeEndResult hasMore 0 0 warn c2)))))"

definition handleOnce ::
  "Conn \<Rightarrow> proto_Result option \<Rightarrow> error option \<Rightarrow> uint16 \<Rightarrow> bool \<Rightarrow> error option \<times> Conn"
where
  "handleOnce c result failure warn hasMore =
     (let (ret, c1) = handleOnce_body (startWriterBuffering c) result failure warn hasMore
      in (ret, endWriterBuffering c1))"

datatype compositeResult =
  compositeResult (cr_r: "proto_Result option") (cr_w: uint16) (cr_e: "error option")

text \<open>
  The callback given to the executor. Its state is what the closure captures: the variable
  \<open>prev\<close> and the connection. Its arguments are \<open>(result, warns, failure)\<close>.
\<close>

definition callback ::
  "compositeResult option \<times> Conn \<Rightarrow> proto_Result option \<times> uint16 \<times> error option
     \<Rightarrow> error option \<times> (compositeResult option \<times> Conn)"
where
  "callback st args =
     (let (prev, c) = st; (result, warns, failure) = args in
      case (case prev of
              Some p \<Rightarrow> handleOnce c (cr_r p) (cr_e p) (cr_w p) True
            | None \<Rightarrow> (None, c)) of
        (Some err, c1) \<Rightarrow> (Some err, (prev, c1))
      | (None, c1) \<Rightarrow> (None, (Some (compositeResult result warns failure), c1)))"

text \<open>
  Modelled from the spec: the executor collaborator is not under src. \<open>ExecutorComQuery\<close>
  invokes the callback once per result set, in order; \<open>calls\<close> are the arguments of these
  invocations and \<open>final\<close> is the error the executor returns after the last one. A callback
  that returns an error ends the call with that error.
\<close>

fun ExecutorComQuery ::
  "(proto_Result option \<times> uint16 \<times> error option) list \<Rightarrow> error option
     \<Rightarrow> ('s \<Rightarrow> proto_Result option \<times> uint16 \<times> error option \<Rightarrow> error option \<times> 's)
     \<Rightarrow> 's \<Rightarrow> error option \<times> 's"
where
  "ExecutorComQuery [] final cb st = (final, st)"
| "ExecutorComQuery (args # rest) final cb st =
     (case cb st args of
        (Some err, st1) \<Rightarrow> (Some err, st1)
      | (None, st1) \<Rightarrow> ExecutorComQuery rest final cb st1)"

definition handleQuery ::
  "(proto_Result option \<times> uint16 \<times> error option) list \<Rightarrow> error option \<Rightarrow> Conn
     \<Rightarrow> error option outcome \<times> Conn"
where
  "handleQuery calls final c =
     (let c0 = recycleReadPacket c;
          (err, (prev, c1)) = ExecutorComQuery calls final callback (None, c0)
      in case err of
           Some e \<Rightarrow> (Returned (Some e), c1)
         | None \<Rightarrow>
             (case prev of
                Some p \<Rightarrow>
                  (case handleOnce c1 (cr_r p) (cr_e p) (cr_w p) False of
                     (Some e, c2) \<Rightarrow> (Returned (Some e), c2)
                   | (None, c2) \<Rightarrow> (Returned None, c2))
              | None \<Rightarrow> (Returned None, c1)))"

section \<open>handleFieldList\<close>

text \<open>The loop that builds \<open>des\<close>; \<open>field.(*Field)\<close> panics on any other implementation.\<close>

fun fields_loop :: "proto_Field list \<Rightarrow> field_list_item list \<Rightarrow> field_list_item list option" where
  "fields_loop [] des = Some des"
| "fields_loop (Field fld # rest) des = fields_loop rest (des @ [ColumnDefinition fld])"
| "fields_loop (ForeignField fld # rest) des = None"

text \<open>\<open>ExecuteFieldList\<close> is the pair \<open>(fields, err)\<close> the executor returns.\<close>

definition handleFieldList ::
  "proto_Field list \<times> error option \<Rightarrow> Conn \<Rightarrow> error option outcome \<times> Conn"
where
  "handleFieldList ExecuteFieldList c =
     (let c0 = recycleReadPacket c; (flds, err) = ExecuteFieldList in
      case (case err of
              Some e \<Rightarrow> writeErrorPacketFromError e c0
            | None \<Rightarrow> (None, c0)) of
        (Some wErr, c1) \<Rightarrow> (Returned (Some wErr), c1)
      | (None, c1) \<Rightarrow>
          (case fields_loop flds [] of
             None \<Rightarrow> (Panicked, c1)
           | Some des \<Rightarrow>
               (case writePacketForFieldList (des @ [EOFPacket 0 2]) c1 of
                  (Some e, c2) \<Rightarrow> (Returned (Some e), c2)
                | (None, c2) \<Rightarrow> (Returned None, c2))))"

section \<open>handleStmtExecute\<close>

text \<open>The deferred closure that allocates a new bind variable map for the statement.\<close>

definition reset_BindVars :: "uint32 \<Rightarrow> (uint32 \<rightharpoonup> proto_Stmt) \<Rightarrow> (uint32 \<rightharpoonup> proto_Stmt)" where
  "reset_BindVars stmtID reg =
     (case reg stmtID of
        Some prepareStmt \<Rightarrow>
          reg(stmtID \<mapsto> prepareStmt\<lparr>BindVars := Some (GoMap (unat (ParamsCount prepareStmt)) [])\<rparr>)
      | None \<Rightarrow> reg)"

text \<open>
  The handler from \<open>if err != nil\<close> on, the three deferred closures left to
  \<open>handleStmtExecute\<close>. \<open>ExecutorComStmtExecute\<close> is the executor: it gets the statement
  \<open>ctx.Stmt\<close> points to and returns \<open>(result, warn, err)\<close> with the statement as it left
  it (the executor may mutate its bind variables). The statement is shared with the
  registry, so the registry sees the change. \<open>prepareStmt.(*proto.Stmt)\<close> panics on an id
  that is not registered, \<open>result.Dataset()\<close> on a nil result.
\<close>

definition handleStmtExecute_body ::
  "(proto_Stmt \<Rightarrow> (proto_Result option \<times> uint16 \<times> error option) \<times> proto_Stmt)
     \<Rightarrow> uint32 \<Rightarrow> error option \<Rightarrow> (uint32 \<rightharpoonup> proto_Stmt) \<Rightarrow> Conn
     \<Rightarrow> error option outcome \<times> (uint32 \<rightharpoonup> proto_Stmt) \<times> Conn"
where
  "handleStmtExecute_body ExecutorComStmtExecute stmtID err reg c =
     (case err of
        Some e \<Rightarrow>
          (case writeErrorPacketFromError e c of (wErr, c1) \<Rightarrow> (Returned wErr, reg, c1))
      | None \<Rightarrow>
          (case reg stmtID of
             None \<Rightarrow> (Panicked, reg, c)
           | Some prepareStmt \<Rightarrow>
               (let ((result, warn, xerr), stmt1) = ExecutorComStmtExecute prepareStmt;
                    reg1 = reg(stmtID \<mapsto> stmt1)
                in case xerr of
                     Some e \<Rightarrow>
                       (case writeErrorPacketFromError e c of
                          (wErr, c1) \<Rightarrow> (Returned wErr, reg1, c1))
                   | None \<Rightarrow>
                       (case result of
                          None \<Rightarrow> (Panicked, reg1, c)
                        | Some res \<Rightarrow>
                            (case Dataset res of
                               (ds, Some e) \<Rightarrow>
                                 (case writeErrorPacketFromError e c of
                                    (wErr, c1) \<Rightarrow> (Returned wErr, reg1, c1))
                             | (None, None) \<Rightarrow>
                                 (case writeOKPacket (RowsAffected res) (LastInsertId res)
                                         (StatusFlags c) warn c of
                                    (wErr, c1) \<Rightarrow> (Returned wErr, reg1, c1))
                             | (Some ds, None) \<Rightarrow>
                                 (case (case writeFields (Fields ds) c of
                                          (Some e, c1) \<Rightarrow> (Some e, c1)
                                        | (None, c1) \<Rightarrow>
                                            (case writeDatasetBinary ds c1 of
                                               (Some e, c2) \<Rightarrow> (Some e, c2)
                                             | (None, c2) \<Rightarrow> writeEndResult False 0 0 warn c2)) of
                                    (wErr, c3) \<Rightarrow> (Returned wErr, reg1, emit DatasetClosed c3)))))))"

text \<open>
  \<open>parseComStmtExecute\<close> is not under src: it is a parameter that, from the registry and
  the packet, yields the statement id, an error and the registry as it leaves it (it
  stores the bind variables of the packet in the statement). The deferred closures run
  last, in reverse order, also after a panic.
\<close>

definition handleStmtExecute ::
  "((uint32 \<rightharpoonup> proto_Stmt) \<Rightarrow> string \<Rightarrow> uint32 \<times> error option \<times> (uint32 \<rightharpoonup> proto_Stmt))
     \<Rightarrow> (proto_Stmt \<Rightarrow> (proto_Result option \<times> uint16 \<times> error option) \<times> proto_Stmt)
     \<Rightarrow> Listener \<Rightarrow> Conn \<Rightarrow> proto_Context
     \<Rightarrow> error option outcome \<times> Listener \<times> Conn"
where
  "handleStmtExecute parseComStmtExecute ExecutorComStmtExecute l c ctx =
     (let c0 = startWriterBuffering c;
          (stmtID, err, reg) = parseComStmtExecute (stmts l) (Data ctx);
          c1 = recycleReadPacket c0;
          (ret, reg1, c2) = handleStmtExecute_body ExecutorComStmtExecute stmtID err reg c1;
          reg2 = (if stmtID \<noteq> 0 then reset_BindVars stmtID reg1 else reg1)
      in (ret, l\<lparr>stmts := reg2\<rparr>, endWriterBuffering c2))"

section \<open>handlePrepare\<close>

text \<open>\<open>strings.Count(s, "?")\<close> for a separator of one byte: the bytes of \<open>s\<close> equal to it.\<close>

definition strings_Count :: "string \<Rightarrow> char \<Rightarrow> nat" where
  "strings_Count s sep = length (filter (\<lambda>b. b = sep) s)"

text \<open>
  The loop over \<open>act.Hints()\<close>. \<open>hint_Parse\<close> is \<open>hint.Parse\<close>, returning the Go pair
  \<open>(*hint.Hint, error)\<close>. The loop ends early only when writing the error fails.
\<close>

fun hints_loop ::
  "(string \<Rightarrow> hint_Hint option \<times> error option) \<Rightarrow> string list \<Rightarrow> proto_Stmt \<Rightarrow> Conn
     \<Rightarrow> error option \<times> proto_Stmt \<times> Conn"
where
  "hints_loop hint_Parse [] stmt c = (None, stmt, c)"
| "hints_loop hint_Parse (it # rest) stmt c =
     (let (h, err) = hint_Parse it in
      case (case err of
              Some e \<Rightarrow> writeErrorPacketFromError e c
            | None \<Rightarrow> (None, c)) of
        (Some wErr, c1) \<Rightarrow> (Some wErr, stmt, c1)
      | (None, c1) \<Rightarrow> hints_loop hint_Parse rest (stmt\<lparr>Hints := Hints stmt @ [h]\<rparr>) c1)"

text \<open>
  \<open>ParseOneStmt\<close> is the parser collaborator, returning the Go pair \<open>(ast.StmtNode,
  error)\<close>; \<open>act.Hints()\<close> panics on a nil \<open>act\<close>. The trace collaborator
  (\<open>trace.Extract\<close>) touches neither the connection nor the registry and is left out.
\<close>

definition handlePrepare ::
  "(string \<Rightarrow> ast_StmtNode option \<times> error option)
     \<Rightarrow> (string \<Rightarrow> hint_Hint option \<times> error option)
     \<Rightarrow> Listener \<Rightarrow> Conn \<Rightarrow> proto_Context
     \<Rightarrow> error option outcome \<times> Listener \<times> Conn"
where
  "handlePrepare ParseOneStmt hint_Parse l c ctx =
     (case Data ctx of
        [] \<Rightarrow> (Panicked, l, c)
      | _ # query \<Rightarrow>
          (let c0 = recycleReadPacket c;
               statementID = statementID l + 1;
               l0 = l\<lparr>statementID := statementID\<rparr>;
               stmt = \<lparr>StatementID = statementID, PrepareStmt = query, ParamsCount = 0,
                        ParamsType = [], BindVars = None, Hints = [], StmtNode_of = None\<rparr>;
               (act, err) = ParseOneStmt query
           in case (case err of
                      Some e \<Rightarrow> writeErrorPacketFromError e c0
                    | None \<Rightarrow> (None, c0)) of
                (Some wErr, c1) \<Rightarrow> (Returned (Some wErr), l0, c1)
              | (None, c1) \<Rightarrow>
                  (case act of
                     None \<Rightarrow> (Panicked, l0, c1)
                   | Some node \<Rightarrow>
                       (case hints_loop hint_Parse (node_Hints node) stmt c1 of
                          (Some wErr, stmt1, c2) \<Rightarrow> (Returned (Some wErr), l0, c2)
                        | (None, stmt1, c2) \<Rightarrow>
                            (let stmt2 = stmt1\<lparr>StmtNode_of := Some node\<rparr>;
                                 paramsCount = (word_of_nat (strings_Count query (CHR ''?'')) :: uint16);
                                 stmt3 = (if paramsCount > 0
                                          then stmt2\<lparr>ParamsCount := paramsCount,
                                                     ParamsType := replicate (unat paramsCount) 0,
                                                     BindVars := Some (GoMap (unat paramsCount) [])\<rparr>
                                          else stmt2);
                                 l1 = l0\<lparr>stmts := (stmts l0)(statementID \<mapsto> stmt3)\<rparr>
                             in case writePrepare stmt3 c2 of
                                  (wErr, c3) \<Rightarrow> (Returned wErr, l1, c3))))))"

section \<open>handleStmtReset and handleSetOption\<close>

text \<open>
  Modelled from the spec: the packet readers \<open>readUint16\<close> and \<open>readUint32\<close> are not under
  src. They read a little-endian integer at \<open>pos\<close>, as the MySQL protocol encodes it, and
  return it with the next position and whether the packet was long enough.
\<close>

definition readUint16 :: "string \<Rightarrow> nat \<Rightarrow> uint16 \<times> nat \<times> bool" where
  "readUint16 data pos =
     (if pos + 1 \<ge> length data then (0, 0, False)
      else (word_of_nat (of_char (data ! pos) + 256 * of_char (data ! (pos + 1))), pos + 2, True))"

definition readUint32 :: "string \<Rightarrow> nat \<Rightarrow> uint32 \<times> nat \<times> bool" where
  "readUint32 data pos =
     (if pos + 3 \<ge> length data then (0, 0, False)
      else (word_of_nat (of_char (data ! pos) + 256 * of_char (data ! (pos + 1))
                         + 65536 * of_char (data ! (pos + 2))
                         + 16777216 * of_char (data ! (pos + 3))), pos + 4, True))"

definition handleStmtReset ::
  "Listener \<Rightarrow> Conn \<Rightarrow> proto_Context \<Rightarrow> error option outcome \<times> Listener \<times> Conn"
where
  "handleStmtReset l c ctx =
     (let (stmtID, _, ok) = readUint32 (Data ctx) 1;
          c0 = recycleReadPacket c;
          l1 = (if ok then
                  (case stmts l stmtID of
                     Some prepareStmt \<Rightarrow>
                       l\<lparr>stmts := (stmts l)(stmtID \<mapsto> prepareStmt\<lparr>BindVars := Some (GoMap 0 [])\<rparr>)\<rparr>
                   | None \<Rightarrow> l)
                else l)
      in case writeOKPacket 0 0 (StatusFlags c0) 0 c0 of
           (wErr, c1) \<Rightarrow> (Returned wErr, l1, c1))"

text \<open>
  \<open>c.Capabilities |= flag\<close> is \<open>OR\<close>, \<open>c.Capabilities &^= flag\<close> is \<open>AND NOT\<close>. The
  \<open>switch\<close> has no return after its cases and the \<open>if ok\<close> block none at its end, so
  control reaches the last \<open>writeErrorPacket\<close> whenever no write has failed before.
\<close>

definition handleSetOption :: "Conn \<Rightarrow> proto_Context \<Rightarrow> error option outcome \<times> Conn" where
  "handleSetOption c ctx =
     (let (operation, _, ok) = readUint16 (Data ctx) 1;
          c0 = recycleReadPacket c
      in case (if ok then
                 (case (if operation = 0 then
                          (None, c0\<lparr>Capabilities := Capabilities c0 OR CapabilityClientMultiStatements\<rparr>)
                        else if operation = 1 then
                          (None, c0\<lparr>Capabilities :=
                                      Capabilities c0 AND NOT CapabilityClientMultiStatements\<rparr>)
                        else
                          writeErrorPacket ERUnknownComError SSUnknownComError
                            ''error handling packet: %v'' (Data ctx) c0) of
                    (Some err, c1) \<Rightarrow> (Some err, c1)
                  | (None, c1) \<Rightarrow> writeEndResult False 0 0 0 c1)
               else (None, c0)) of
           (Some err, c2) \<Rightarrow> (Returned (Some err), c2)
         | (None, c2) \<Rightarrow>
             (case writeErrorPacket ERUnknownComError SSUnknownComError
                     ''error handling packet: %v'' (Data ctx) c2 of
                (wErr, c3) \<Rightarrow> (Returned wErr, c3)))"

section \<open>Reading the record of a connection\<close>

text \<open>What a handler added to the record of the connection.\<close>

definition new_events :: "Conn \<Rightarrow> Conn \<Rightarrow> event list" where
  "new_events c c' = drop (length (wire c)) (wire c')"

text \<open>The packets of the write calls in a record, whether the write succeeded or not.\<close>

fun packets_of :: "event list \<Rightarrow> packet list" where
  "packets_of [] = []"
| "packets_of (Wrote p # evs) = p # packets_of evs"
| "packets_of (WriteFailed p err # evs) = p # packets_of evs"
| "packets_of (ev # evs) = packets_of evs"

text \<open>The result of the next write call on a connection, and the event a write call
  with that result leaves in the record.\<close>

definition next_write :: "Conn \<Rightarrow> error option" where
  "next_write c = (case faults c of [] \<Rightarrow> None | f # _ \<Rightarrow> f)"

definition attempt :: "packet \<Rightarrow> error option \<Rightarrow> event" where
  "attempt p r = (case r of None \<Rightarrow> Wrote p | Some err \<Rightarrow> WriteFailed p err)"

section \<open>Streaming of results, as the spec words it\<close>

text \<open>
  The has_more flag a written packet carries: an OK packet carries it as the bit
  \<open>SERVER_MORE_RESULTS_EXISTS\<close> of its status flags, an end-of-result as the argument of
  \<open>writeEndResult\<close>; no other packet carries one.
\<close>

fun has_more_of :: "event \<Rightarrow> bool option" where
  "has_more_of (Wrote (OKPacket affectedRows lastInsertID flags warnings)) =
     Some (flags AND ServerMoreResultsExists \<noteq> 0)"
| "has_more_of (Wrote (EndResult hasMore affectedRows lastInsertID warnings)) = Some hasMore"
| "has_more_of ev = None"

text \<open>An invocation of the callback without any error: no failure, a result, and a
  dataset obtained without error.\<close>

definition no_error :: "proto_Result option \<times> uint16 \<times> error option \<Rightarrow> bool" where
  "no_error args =
     (case args of
        (result, warns, failure) \<Rightarrow>
          failure = None
          \<and> (case result of None \<Rightarrow> False | Some res \<Rightarrow> snd (Dataset res) = None))"

text \<open>
  The spec's account of COM_QUERY: the results are emitted in callback order, each by one
  call of \<open>handleOnce\<close>, all but the last with has_more true and the last with has_more
  false.
\<close>

definition emit_result ::
  "Conn \<Rightarrow> (proto_Result option \<times> uint16 \<times> error option) \<times> bool \<Rightarrow> Conn" where
  "emit_result c x =
     (case x of
        ((result, warns, failure), hasMore) \<Rightarrow> snd (handleOnce c result failure warns hasMore))"

definition has_more_flags :: "nat \<Rightarrow> bool list" where
  "has_more_flags n = replicate (n - 1) True @ [False]"

text \<open>The packets of one response, and what one response adds to the record, when no write
  fails.\<close>

definition response_packets ::
  "uint16 \<Rightarrow> proto_Result option \<Rightarrow> error option \<Rightarrow> uint16 \<Rightarrow> bool \<Rightarrow> packet list" where
  "response_packets flags result failure warn hasMore =
     (case failure of
        Some f \<Rightarrow> [ErrorPacketFromError f]
      | None \<Rightarrow>
          (case result of
             None \<Rightarrow> [ErrorPacketFromError (NewSQLError ERBadNullError SSUnknownSQLState ''un dataset'')]
           | Some res \<Rightarrow>
               (case Dataset res of
                  (ds, Some f) \<Rightarrow> [ErrorPacketFromError f]
                | (None, None) \<Rightarrow>
                    [OKPacket (RowsAffected res) (LastInsertId res)
                       (if hasMore then flags OR ServerMoreResultsExists else flags) warn]
                | (Some ds, None) \<Rightarrow>
                    [FieldsPacket (Fields ds), DatasetPacket ds, EndResult hasMore 0 0 warn])))"

definition response_events ::
  "uint16 \<Rightarrow> (proto_Result option \<times> uint16 \<times> error option) \<times> bool \<Rightarrow> event list" where
  "response_events flags x =
     (case x of
        ((result, warns, failure), hasMore) \<Rightarrow>
          StartWriterBuffering # map Wrote (response_packets flags result failure warns hasMore)
          @ [EndWriterBuffering])"

section \<open>Concrete scenarios\<close>

text \<open>A connection of tenant \<open>t\<close> on schema \<open>old\<close> with nothing recorded and no write
  failure ahead, and a listener that has prepared no statement yet.\<close>

definition scenario_conn :: Conn where
  "scenario_conn =
     \<lparr>Schema = ''old'', Tenant = ''t'', Capabilities = 0, StatusFlags = 2, wire = [], faults = []\<rparr>"

definition scenario_listener :: Listener where
  "scenario_listener = \<lparr>stmts = Map.empty, statementID = 0\<rparr>"

text \<open>A parser that accepts every text as a statement without hints, and a hint parser
  that accepts every hint.\<close>

definition scenario_ParseOneStmt :: "string \<Rightarrow> ast_StmtNode option \<times> error option" where
  "scenario_ParseOneStmt query = (Some (StmtNode []), None)"

definition scenario_hint_Parse :: "string \<Rightarrow> hint_Hint option \<times> error option" where
  "scenario_hint_Parse it = (Some (Hint it), None)"

text \<open>
  A listener whose counter has reached 0xFFFFFFFF, after it has handled one more
  COM_STMT_PREPARE, of \<open>SELECT ?\<close>: the counter wraps and the statement gets id 0.
\<close>

definition wrapped_listener :: Listener where
  "wrapped_listener =
     fst (snd (handlePrepare scenario_ParseOneStmt scenario_hint_Parse
                 \<lparr>stmts = Map.empty, statementID = 0xFFFFFFFF\<rparr> scenario_conn
                 \<lparr>ConnectionID = 1, Data = CHR 0x16 # ''SELECT ?''\<rparr>))"

text \<open>
  The two invocations of scenario S5: a result with a dataset, then a write-only result.
\<close>

definition scenario_calls :: "(proto_Result option \<times> uint16 \<times> error option) list" where
  "scenario_calls =
     [(Some \<lparr>Dataset = (Some (proto_Dataset [Field ''a''] []), None),
              RowsAffected = 0, LastInsertId = 0\<rparr>, 0, None),
      (Some \<lparr>Dataset = (None, None), RowsAffected = 1, LastInsertId = 0\<rparr>, 0, None)]"

text \<open>A statement with one placeholder, and a listener that has prepared it under id 1.\<close>

definition scenario_stmt :: proto_Stmt where
  "scenario_stmt =
     \<lparr>StatementID = 1, PrepareStmt = ''SELECT ?'', ParamsCount = 1, ParamsType = [0],
        BindVars = Some (GoMap 1 []), Hints = [], StmtNode_of = Some (StmtNode [])\<rparr>"

definition prepared_listener :: Listener where
  "prepared_listener = \<lparr>stmts = [1 \<mapsto> scenario_stmt], statementID = 1\<rparr>"

text \<open>A statement text with 65536 placeholders.\<close>

definition many_placeholders :: string where
  "many_placeholders = ''SELECT '' @ concat (replicate 65535 ''?,'') @ ''?''"

text \<open>
  A \<open>parseComStmtExecute\<close> for the scenarios: it reads the statement id of the packet,
  fails with id 0 when the packet is too short or the id is not registered, and otherwise
  binds \<open>v1\<close> in the statement. The executor of the scenarios answers with a write-only
  result and leaves the statement alone.
\<close>

definition scenario_parse ::
  "(uint32 \<rightharpoonup> proto_Stmt) \<Rightarrow> string \<Rightarrow> uint32 \<times> error option \<times> (uint32 \<rightharpoonup> proto_Stmt)"
where
  "scenario_parse reg data =
     (let (stmtID, pos, ok) = readUint32 data 1 in
      if \<not> ok then (0, Some (Failure ''reading statement ID failed''), reg)
      else (case reg stmtID of
              None \<Rightarrow> (0, Some (Failure ''statement ID is not found from record''), reg)
            | Some prepareStmt \<Rightarrow>
                (stmtID, None,
                 reg(stmtID \<mapsto> prepareStmt\<lparr>BindVars :=
                       Some (GoMap (unat (ParamsCount prepareStmt)) [(''v1'', ValueInt64 7)])\<rparr>))))"

definition scenario_executor ::
  "proto_Stmt \<Rightarrow> (proto_Result option \<times> uint16 \<times> error option) \<times> proto_Stmt" where
  "scenario_executor stmt =
     ((Some \<lparr>Dataset = (None, None), RowsAffected = 1, LastInsertId = 0\<rparr>, 0, None), stmt)"

section \<open>Properties of CastFunction\<close>

text \<open>
  C9. For every CastFunction value, GetCharset and GetCast never both report ok = true:
  GetCharset succeeds exactly on a string, GetCast exactly on a *ConvertDataType.
\<close>

theorem cast_never_both:
  "\<not> (snd (GetCharset c) \<and> snd (GetCast c))
   \<and> (snd (GetCharset c) = (\<exists>s. cast c = StringCast s))
   \<and> (snd (GetCast c) = (\<exists>t. cast c = ConvertDataTypeCast t))"
  by (cases "cast c") (simp_all add: GetCharset_def GetCast_def)

section \<open>Properties of sinFunc\<close>

text \<open>
  C10. sinFunc.Apply: when evaluating the first input returns an error, that error is
  returned (wrapped by errors.WithStack) with a nil value; when the first input evaluates
  to nil without error, Apply returns (nil, nil); NumInput returns 1.
\<close>

theorem sin_apply_error_and_nil:
  "Apply s sinOf ((param, Some err) # rest) = Returned (None, Some (WithStack err))
   \<and> Apply s sinOf ((None, None) # rest) = Returned (None, None)
   \<and> NumInput s = 1"
  by (simp add: Apply_def NumInput_def)

section \<open>Helper lemmas on the record of a connection\<close>

lemma allow_loop_iff: "allow_loop db xs \<longleftrightarrow> db \<in> set xs"
  by (induction xs) auto

lemma writePacket_eq:
  "writePacket p c =
     (next_write c, c\<lparr>wire := wire c @ [attempt p (next_write c)], faults := tl (faults c)\<rparr>)"
  by (cases c) (simp add: writePacket_def next_write_def attempt_def emit_def
      split: list.splits option.splits)

lemma next_write_wire [simp]: "next_write (c\<lparr>wire := evs\<rparr>) = next_write c"
  by (simp add: next_write_def)

lemma packets_of_attempt [simp]: "packets_of (attempt p r # evs) = p # packets_of evs"
  by (cases r) (simp_all add: attempt_def)

lemmas write_defs = writeErrorPacketFromError_def writeErrorPacket_def writeOKPacket_def
  writeFields_def writeDataset_def writeDatasetBinary_def writeEndResult_def
  writePacketForFieldList_def writePrepare_def recycleReadPacket_def
  startWriterBuffering_def endWriterBuffering_def emit_def

lemma set_bit_word: "((x::'a::len word) OR m) AND m = m"
  by (auto simp add: bit_eq_iff bit_simps)

lemma clear_bit_word: "((x::'a::len word) AND NOT m) AND m = 0"
  by (simp add: bit_eq_iff bit_simps)

section \<open>Properties of handleInitDB\<close>

text \<open>
  C5. For every COM_INIT_DB whose schema name is none of the clusters the tenant manager
  returns for the connection's tenant, the handler writes one ERR packet, built from the
  SQL error with code ER_BAD_DB_ERROR (1049) and message "Unknown database '<name>'", and
  nothing else (so no OK packet); the Schema of the connection is unchanged; the handler
  returns nil unless that write fails, in which case it returns the write's error.
\<close>

theorem handleInitDB_denied:
  assumes "db \<notin> set (GetClusters (Tenant c))"
  shows "(case handleInitDB GetClusters ExecuteUseDB c (ctx\<lparr>Data := b # db\<rparr>) of
            (ret, c') \<Rightarrow>
              ret = Returned (next_write c)
              \<and> packets_of (new_events c c') =
                  [ErrorPacketFromError
                     (SQLError 1049 [] (''Unknown database '' @ CHR 0x27 # db @ [CHR 0x27]))]
              \<and> Schema c' = Schema c)"
  using assms
  by (cases "next_write c")
    (simp_all add: handleInitDB_def allow_loop_iff write_defs writePacket_eq next_write_def
      new_events_def NewSQLError_def ERBadDb_def unknown_database_def Let_def)

theorem handleInitDB_denied_witness:
  "''secret'' \<notin> set ((\<lambda>tenant. [''app'']) (Tenant scenario_conn))
   \<and> (case handleInitDB (\<lambda>tenant. [''app'']) None scenario_conn
              \<lparr>ConnectionID = 1, Data = CHR 0x02 # ''secret''\<rparr> of
         (ret, c') \<Rightarrow>
           ret = Returned None
           \<and> packets_of (new_events scenario_conn c') =
               [ErrorPacketFromError
                  (SQLError 1049 [] (''Unknown database '' @ CHR 0x27 # ''secret'' @ [CHR 0x27]))]
           \<and> Schema c' = ''old'')"
  using handleInitDB_denied [where db = "''secret''" and GetClusters = "\<lambda>tenant. [''app'']"
      and c = scenario_conn and ExecuteUseDB = None
      and ctx = "\<lparr>ConnectionID = 1, Data = []\<rparr>" and b = "CHR 0x02"]
  by (simp add: scenario_conn_def next_write_def)

section \<open>Properties of handleQuery\<close>

text \<open>
  C8. For every result emitted during COM_QUERY (one call of handleOnce): if the callback's
  error is non-nil, exactly one packet is written, the ERR packet built from that error;
  otherwise, if the Result is nil, exactly one packet is written, the ERR packet built from
  the SQL error with code ER_BAD_NULL_ERROR. In both cases the write is the only event
  between the start of buffering and the flush, and handleOnce returns what that write
  returned.
\<close>

theorem handleOnce_error_results:
  "(case handleOnce c result (Some f) warn hasMore of
      (ret, c') \<Rightarrow>
        ret = next_write c
        \<and> packets_of (new_events c c') = [ErrorPacketFromError f]
        \<and> new_events c c' =
            [StartWriterBuffering, attempt (ErrorPacketFromError f) (next_write c),
             EndWriterBuffering])
   \<and> (case handleOnce c None None warn hasMore of
      (ret, c') \<Rightarrow>
        ret = next_write c
        \<and> packets_of (new_events c c') =
            [ErrorPacketFromError (SQLError ERBadNullError SSUnknownSQLState ''un dataset'')]
        \<and> new_events c c' =
            [StartWriterBuffering,
             attempt (ErrorPacketFromError (SQLError ERBadNullError SSUnknownSQLState ''un dataset''))
               (next_write c),
             EndWriterBuffering])"
  by (simp add: handleOnce_def handleOnce_body_def write_defs writePacket_eq
      new_events_def NewSQLError_def Let_def)

section \<open>Properties of handleSetOption\<close>

text \<open>
  C7. For every COM_SET_OPTION with a well-formed 2-byte operation: operation 0 sets the
  CLIENT_MULTI_STATEMENTS bit in the capabilities of the connection and operation 1 clears
  it, and in both cases the first packet written is the end-of-result; any other operation
  leaves the capabilities alone and the first packet written is an ERR packet with code
  ER_UNKNOWN_COM_ERROR. When no write fails, the packets written are, in full: for
  operations 0 and 1 the end-of-result followed by an ERR packet with code
  ER_UNKNOWN_COM_ERROR, for any other operation that ERR packet, the end-of-result and the
  ERR packet again.
\<close>

theorem handleSetOption_operation:
  assumes "readUint16 (Data ctx) 1 = (operation, pos, True)"
  shows "(case handleSetOption c ctx of
            (ret, c') \<Rightarrow>
              (operation = 0 \<longrightarrow>
                 Capabilities c' = Capabilities c OR CapabilityClientMultiStatements
                 \<and> Capabilities c' AND CapabilityClientMultiStatements = CapabilityClientMultiStatements
                 \<and> hd (packets_of (new_events c c')) = EndResult False 0 0 0)
              \<and> (operation = 1 \<longrightarrow>
                 Capabilities c' = Capabilities c AND NOT CapabilityClientMultiStatements
                 \<and> Capabilities c' AND CapabilityClientMultiStatements = 0
                 \<and> hd (packets_of (new_events c c')) = EndResult False 0 0 0)
              \<and> (operation \<noteq> 0 \<and> operation \<noteq> 1 \<longrightarrow>
                 Capabilities c' = Capabilities c
                 \<and> hd (packets_of (new_events c c')) =
                     ErrorPacket ERUnknownComError SSUnknownComError ''error handling packet: %v'' (Data ctx))
              \<and> (faults c = [] \<longrightarrow>
                 ret = Returned None
                 \<and> packets_of (new_events c c') =
                     (if operation = 0 \<or> operation = 1 then [] else
                        [ErrorPacket ERUnknownComError SSUnknownComError ''error handling packet: %v'' (Data ctx)])
                     @ [EndResult False 0 0 0,
                        ErrorPacket ERUnknownComError SSUnknownComError ''error handling packet: %v'' (Data ctx)]))"
proof -
  consider (enable) "operation = 0" | (disable) "operation = 1"
    | (other) "operation \<noteq> 0" "operation \<noteq> 1"
    by blast
  then show ?thesis
  proof cases
    case enable
    then show ?thesis using assms
      by (cases "next_write c")
        (auto simp add: handleSetOption_def write_defs writePacket_eq next_write_def
          new_events_def Let_def set_bit_word split: option.splits list.splits)
  next
    case disable
    then show ?thesis using assms
      by (cases "next_write c")
        (auto simp add: handleSetOption_def write_defs writePacket_eq next_write_def
          new_events_def Let_def clear_bit_word split: option.splits list.splits)
  next
    case other
    then show ?thesis using assms
      by (cases "next_write c")
        (auto simp add: handleSetOption_def write_defs writePacket_eq next_write_def
          new_events_def Let_def split: option.splits list.splits)
  qed
qed

theorem handleSetOption_operation_witness:
  "readUint16 [CHR 0x1B, CHR 0x00, CHR 0x00] 1 = (0, 3, True)
   \<and> (case handleSetOption scenario_conn \<lparr>ConnectionID = 1, Data = [CHR 0x1B, CHR 0x00, CHR 0x00]\<rparr> of
         (ret, c') \<Rightarrow>
           Capabilities c' AND CapabilityClientMultiStatements = CapabilityClientMultiStatements
           \<and> ret = Returned None
           \<and> packets_of (new_events scenario_conn c') =
               [EndResult False 0 0 0,
                ErrorPacket ERUnknownComError SSUnknownComError ''error handling packet: %v''
                  [CHR 0x1B, CHR 0x00, CHR 0x00]])"
proof -
  have r: "readUint16 (Data \<lparr>ConnectionID = 1, Data = [CHR 0x1B, CHR 0x00, CHR 0x00]\<rparr>) 1
             = (0, 3, True)"
    by (simp add: readUint16_def)
  show ?thesis
    using r handleSetOption_operation [OF r, of scenario_conn]
    by (simp add: scenario_conn_def split: prod.splits)
qed

section \<open>The lookahead of handleQuery\<close>

lemma handleOnce_no_fault:
  assumes "faults c = []"
  shows "handleOnce c result failure warn hasMore =
           (None, c\<lparr>wire := wire c @ StartWriterBuffering #
                       map Wrote (response_packets (StatusFlags c) result failure warn hasMore)
                       @ [EndWriterBuffering]\<rparr>)"
  using assms
  by (cases c)
    (auto simp add: handleOnce_def handleOnce_body_def response_packets_def write_defs
      writePacket_def Let_def split: option.splits prod.splits)

lemma emit_result_no_fault:
  assumes "faults c = []"
  shows "emit_result c ((result, warns, failure), hasMore) =
           c\<lparr>wire := wire c @ StartWriterBuffering #
                       map Wrote (response_packets (StatusFlags c) result failure warns hasMore)
                       @ [EndWriterBuffering]\<rparr>"
  by (simp add: emit_result_def handleOnce_no_fault [OF assms])

lemma emit_result_keeps:
  assumes "faults c = []"
  shows "faults (emit_result c x) = [] \<and> StatusFlags (emit_result c x) = StatusFlags c"
proof -
  obtain result warns failure hasMore where "x = ((result, warns, failure), hasMore)"
    by (metis prod.collapse)
  then show ?thesis
    by (simp add: emit_result_no_fault [OF assms] assms)
qed

lemma foldl_emit_result_keeps:
  "faults c = [] \<Longrightarrow>
     faults (foldl emit_result c xs) = [] \<and> StatusFlags (foldl emit_result c xs) = StatusFlags c"
  by (induction xs arbitrary: c) (simp_all add: emit_result_keeps)

text \<open>The executor's loop, started with a result held back.\<close>

lemma ExecutorComQuery_held:
  assumes "faults c = []"
  shows "ExecutorComQuery calls None callback (Some (compositeResult result warns failure), c) =
           (None,
            (case last ((result, warns, failure) # calls) of
               (result', warns', failure') \<Rightarrow> Some (compositeResult result' warns' failure')),
            foldl emit_result c
              (map (\<lambda>x. (x, True)) (butlast ((result, warns, failure) # calls))))"
  using assms
proof (induction calls arbitrary: c result warns failure)
  case Nil
  then show ?case by simp
next
  case (Cons args rest)
  obtain result1 warns1 failure1 where a: "args = (result1, warns1, failure1)"
    by (cases args) auto
  let ?c1 = "emit_result c ((result, warns, failure), True)"
  have f1: "faults ?c1 = []"
    using emit_result_keeps [OF Cons.prems] by simp
  have step: "callback (Some (compositeResult result warns failure), c) args =
                (None, (Some (compositeResult result1 warns1 failure1), ?c1))"
    using Cons.prems
    by (simp add: callback_def a handleOnce_no_fault emit_result_def)
  show ?case
    using Cons.IH [OF f1, of result1 warns1 failure1] step
    by (simp add: a)
qed

lemma zip_has_more_flags:
  assumes "calls \<noteq> []"
  shows "zip calls (has_more_flags (length calls)) =
           map (\<lambda>x. (x, True)) (butlast calls) @ [(last calls, False)]"
proof -
  have "calls = butlast calls @ [last calls]"
    using assms by simp
  then have "zip calls (has_more_flags (length calls)) =
               zip (butlast calls @ [last calls]) (replicate (length (butlast calls)) True @ [False])"
    by (simp add: has_more_flags_def)
  also have "\<dots> = zip (butlast calls) (replicate (length (butlast calls)) True) @ [(last calls, False)]"
    by simp
  also have "zip (butlast calls) (replicate (length (butlast calls)) True)
               = map (\<lambda>x. (x, True)) (butlast calls)"
    by (simp add: zip_replicate2)
  finally show ?thesis .
qed

lemma handleQuery_no_fault:
  assumes "calls \<noteq> []" and "faults c = []"
  shows "handleQuery calls None c =
           (Returned None,
            foldl emit_result (recycleReadPacket c) (zip calls (has_more_flags (length calls))))"
proof -
  obtain args rest where cs: "calls = args # rest"
    using assms(1) by (cases calls) auto
  obtain result warns failure where a: "args = (result, warns, failure)"
    by (cases args) auto
  let ?c0 = "recycleReadPacket c"
  let ?held = "foldl emit_result ?c0 (map (\<lambda>x. (x, True)) (butlast calls))"
  have f0: "faults ?c0 = []"
    using assms(2) by (simp add: write_defs)
  have fh: "faults ?held = []"
    using foldl_emit_result_keeps [OF f0] by simp
  obtain result' warns' failure' where l: "last calls = (result', warns', failure')"
    by (cases "last calls") auto
  have run: "ExecutorComQuery calls None callback (None, ?c0) =
               (None, Some (compositeResult result' warns' failure'), ?held)"
    using ExecutorComQuery_held [OF f0, of rest result warns failure] l
    by (simp add: cs a callback_def)
  have "handleQuery calls None c =
          (Returned None, emit_result ?held ((result', warns', failure'), False))"
    using run handleOnce_no_fault [OF fh]
    by (simp add: handleQuery_def emit_result_def Let_def)
  then show ?thesis
    by (simp add: zip_has_more_flags [OF assms(1)] l)
qed


lemma wire_foldl_emit_result:
  "faults c = [] \<Longrightarrow>
     wire (foldl emit_result c xs) = wire c @ concat (map (response_events (StatusFlags c)) xs)"
proof (induction xs arbitrary: c)
  case Nil
  then show ?case by simp
next
  case (Cons x xs)
  obtain result warns failure hasMore where x: "x = ((result, warns, failure), hasMore)"
    by (metis prod.collapse)
  have k: "faults (emit_result c x) = []" "StatusFlags (emit_result c x) = StatusFlags c"
    using emit_result_keeps [OF Cons.prems] by simp_all
  have w: "wire (emit_result c x) = wire c @ response_events (StatusFlags c) x"
    by (simp add: x emit_result_no_fault [OF Cons.prems] response_events_def)
  show ?case
    using Cons.IH [OF k(1)] by (simp add: k(2) w)
qed

lemma flushes_response_events:
  "length (filter (\<lambda>ev. ev = EndWriterBuffering) (response_events flags x)) = 1"
proof -
  obtain result warns failure hasMore where x: "x = ((result, warns, failure), hasMore)"
    by (metis prod.collapse)
  have "filter (\<lambda>ev. ev = EndWriterBuffering) (map Wrote ps) = []" for ps
    by (induction ps) simp_all
  then show ?thesis
    by (simp add: x response_events_def)
qed

lemma flushes_concat:
  "length (filter (\<lambda>ev. ev = EndWriterBuffering) (concat (map (response_events flags) xs)))
     = length xs"
  by (induction xs) (simp_all add: flushes_response_events)

lemma map_filter_append:
  "List.map_filter f (xs @ ys) = List.map_filter f xs @ List.map_filter f ys"
  by (simp add: List.map_filter_def)

lemma has_more_response_events:
  assumes "no_error (fst x)" and "flags AND ServerMoreResultsExists = 0"
  shows "List.map_filter has_more_of (response_events flags x) = [snd x]"
proof -
  obtain result warns failure hasMore where x: "x = ((result, warns, failure), hasMore)"
    by (metis prod.collapse)
  have set: "(flags OR ServerMoreResultsExists) AND ServerMoreResultsExists \<noteq> 0"
    by (simp add: set_bit_word ServerMoreResultsExists_def)
  show ?thesis
    using assms set
    by (auto simp add: x response_events_def response_packets_def no_error_def
        List.map_filter_def split: option.splits prod.splits)
qed

lemma has_more_concat:
  assumes "\<forall>x\<in>set xs. no_error (fst x)" and "flags AND ServerMoreResultsExists = 0"
  shows "List.map_filter has_more_of (concat (map (response_events flags) xs)) = map snd xs"
  using assms(1)
proof (induction xs)
  case Nil
  then show ?case by (simp add: List.map_filter_def)
next
  case (Cons x xs)
  then show ?case
    by (simp add: map_filter_append has_more_response_events [OF _ assms(2)])
qed

text \<open>
  C1. For every COM_QUERY whose executor invokes the callback N times (N >= 1) with no
  errors (no failure, no nil result, no dataset error, no failing write, and the executor
  itself returning nil): the handler returns nil and has emitted the results in callback
  order, each by one call of handleOnce, the first N-1 with has_more true and the Nth with
  has_more false; exactly N responses were flushed; and the has_more flags the written
  packets carry (the bit SERVER_MORE_RESULTS_EXISTS of an OK packet's status flags, the
  argument of an end-of-result) are true N-1 times and then false. The connection is one
  whose own StatusFlags do not hold SERVER_MORE_RESULTS_EXISTS: the handlers only read
  StatusFlags and never assign it, and the bit belongs to the non-terminal results of a
  multi-result query only.
\<close>

theorem handleQuery_has_more_lookahead:
  assumes "calls \<noteq> []"
    and "faults c = []"
    and "\<forall>args\<in>set calls. no_error args"
    and "StatusFlags c AND ServerMoreResultsExists = 0"
  shows "(case handleQuery calls None c of
            (ret, c') \<Rightarrow>
              ret = Returned None
              \<and> c' = foldl emit_result (recycleReadPacket c)
                         (zip calls (has_more_flags (length calls)))
              \<and> length (filter (\<lambda>ev. ev = EndWriterBuffering) (new_events c c')) = length calls
              \<and> List.map_filter has_more_of (new_events c c')
                  = replicate (length calls - 1) True @ [False])"
proof -
  let ?xs = "zip calls (has_more_flags (length calls))"
  let ?c0 = "recycleReadPacket c"
  let ?c' = "foldl emit_result ?c0 ?xs"
  have len: "length (has_more_flags (length calls)) = length calls"
    using assms(1) by (cases calls) (simp_all add: has_more_flags_def)
  have f0: "faults ?c0 = []" and s0: "StatusFlags ?c0 = StatusFlags c"
    and w0: "wire ?c0 = wire c @ [RecycleReadPacket]"
    using assms(2) by (simp_all add: write_defs)
  have new: "new_events c ?c' = RecycleReadPacket # concat (map (response_events (StatusFlags c)) ?xs)"
    using wire_foldl_emit_result [OF f0, of ?xs]
    by (simp add: new_events_def s0 w0)
  have ne: "\<forall>x\<in>set ?xs. no_error (fst x)"
    using assms(3) by (auto dest: set_zip_leftD)
  have flushes: "length (filter (\<lambda>ev. ev = EndWriterBuffering) (new_events c ?c')) = length calls"
    by (simp add: new flushes_concat len)
  have "List.map_filter has_more_of (new_events c ?c') = map snd ?xs"
    using has_more_concat [OF ne assms(4)]
    by (simp add: new)
  then have flags: "List.map_filter has_more_of (new_events c ?c')
                      = replicate (length calls - 1) True @ [False]"
    using len by (simp add: has_more_flags_def)
  show ?thesis
    using handleQuery_no_fault [OF assms(1,2)] flushes flags
    by simp
qed

theorem handleQuery_has_more_lookahead_witness:
  "scenario_calls \<noteq> []
   \<and> faults scenario_conn = []
   \<and> list_all no_error scenario_calls
   \<and> StatusFlags scenario_conn AND ServerMoreResultsExists = 0
   \<and> (case handleQuery scenario_calls None scenario_conn of
         (ret, c') \<Rightarrow>
           ret = Returned None
           \<and> new_events scenario_conn c' =
               [RecycleReadPacket,
                StartWriterBuffering, Wrote (FieldsPacket [Field ''a'']),
                Wrote (DatasetPacket (proto_Dataset [Field ''a''] [])),
                Wrote (EndResult True 0 0 0), EndWriterBuffering,
                StartWriterBuffering, Wrote (OKPacket 1 0 2 0), EndWriterBuffering]
           \<and> List.map_filter has_more_of (new_events scenario_conn c') = [True, False])"
proof -
  have h1: "scenario_calls \<noteq> []"
    by (simp add: scenario_calls_def)
  have h2: "faults scenario_conn = []"
    by (simp add: scenario_conn_def)
  have h3: "\<forall>args\<in>set scenario_calls. no_error args"
    by (simp add: scenario_calls_def no_error_def)
  have h4: "StatusFlags scenario_conn AND ServerMoreResultsExists = 0"
    by (simp add: scenario_conn_def ServerMoreResultsExists_def)
  show ?thesis
    using h1 h2 h3 h4 handleQuery_has_more_lookahead [OF h1 h2 h3 h4]
    by (simp add: scenario_calls_def scenario_conn_def handleQuery_def callback_def
        handleOnce_def handleOnce_body_def write_defs writePacket_def new_events_def
        ServerMoreResultsExists_def no_error_def Let_def
        emit_result_def has_more_flags_def)
qed

section \<open>One response per command\<close>

text \<open>
  C2. The claim: for every command and every outcome exactly one response is written. The
  handlers at three inputs: COM_SET_OPTION with operation 0 writes the end-of-result and
  then an ERR packet; COM_FIELD_LIST whose executor fails writes the ERR packet and then
  the field list packet; COM_INIT_DB on an allowed schema whose executor fails returns the
  error and writes nothing.
\<close>

theorem handleSetOption_success_two_packets:
  "(case handleSetOption scenario_conn \<lparr>ConnectionID = 1, Data = [CHR 0x1B, CHR 0x00, CHR 0x00]\<rparr> of
      (ret, c') \<Rightarrow>
        ret = Returned None
        \<and> new_events scenario_conn c' =
            [RecycleReadPacket, Wrote (EndResult False 0 0 0),
             Wrote (ErrorPacket ERUnknownComError SSUnknownComError ''error handling packet: %v''
                      [CHR 0x1B, CHR 0x00, CHR 0x00])])
   \<and> (case handleFieldList ([], Some (Failure ''no such table'')) scenario_conn of
      (ret, c') \<Rightarrow>
        ret = Returned None
        \<and> new_events scenario_conn c' =
            [RecycleReadPacket, Wrote (ErrorPacketFromError (Failure ''no such table'')),
             Wrote (PacketForFieldList [EOFPacket 0 2])])
   \<and> (case handleInitDB (\<lambda>tenant. [''app'']) (Some (Failure ''use failed'')) scenario_conn
              \<lparr>ConnectionID = 1, Data = CHR 0x02 # ''app''\<rparr> of
      (ret, c') \<Rightarrow>
        ret = Returned (Some (Failure ''use failed''))
        \<and> new_events scenario_conn c' = [RecycleReadPacket])"
  by (simp add: handleSetOption_def handleFieldList_def handleInitDB_def readUint16_def
      write_defs writePacket_def new_events_def scenario_conn_def Let_def NewSQLError_def)

section \<open>Properties of handlePrepare\<close>

text \<open>
  C3. The claim: a parse error or a hint-parse error produces an ERR packet and stops the
  handler. The handler at two inputs: with a hint that does not parse it writes the ERR
  packet, goes on, stores the statement (with a nil hint) and writes the prepare response;
  with a statement that does not parse it writes the ERR packet and then panics on the nil
  statement, nothing being stored.
\<close>

theorem handlePrepare_goes_on_after_error:
  "(case handlePrepare (\<lambda>query. (Some (StmtNode [''bad'']), None))
            (\<lambda>it. (None, Some (Failure ''bad hint'')))
            scenario_listener scenario_conn \<lparr>ConnectionID = 1, Data = CHR 0x16 # ''SELECT 1''\<rparr> of
      (ret, l', c') \<Rightarrow>
        ret = Returned None
        \<and> map_option PrepareStmt (stmts l' 1) = Some ''SELECT 1''
        \<and> map_option Hints (stmts l' 1) = Some [None]
        \<and> new_events scenario_conn c' =
            [RecycleReadPacket, Wrote (ErrorPacketFromError (Failure ''bad hint'')),
             Wrote (PreparePacket
                      \<lparr>StatementID = 1, PrepareStmt = ''SELECT 1'', ParamsCount = 0,
                         ParamsType = [], BindVars = None, Hints = [None],
                         StmtNode_of = Some (StmtNode [''bad''])\<rparr>)])
   \<and> (case handlePrepare (\<lambda>query. (None, Some (Failure ''syntax error'')))
            (\<lambda>it. (Some (Hint it), None))
            scenario_listener scenario_conn \<lparr>ConnectionID = 1, Data = CHR 0x16 # ''SELEC''\<rparr> of
      (ret, l', c') \<Rightarrow>
        ret = Panicked
        \<and> stmts l' 1 = None
        \<and> new_events scenario_conn c' =
            [RecycleReadPacket, Wrote (ErrorPacketFromError (Failure ''syntax error''))])"
  by (simp add: handlePrepare_def strings_Count_def
      write_defs writePacket_def new_events_def scenario_conn_def scenario_listener_def Let_def)


lemma hints_loop_keeps:
  "hints_loop hint_Parse its stmt c = (r, stmt1, c1) \<Longrightarrow>
     StatementID stmt1 = StatementID stmt \<and> PrepareStmt stmt1 = PrepareStmt stmt
     \<and> ParamsCount stmt1 = ParamsCount stmt \<and> ParamsType stmt1 = ParamsType stmt
     \<and> BindVars stmt1 = BindVars stmt \<and> StmtNode_of stmt1 = StmtNode_of stmt"
proof (induction its arbitrary: stmt c)
  case Nil
  then show ?case by simp
next
  case (Cons it rest)
  then show ?case
    by (auto simp add: Let_def split: prod.splits option.splits)
qed

lemma hints_loop_all_parse:
  "\<forall>it\<in>set its. snd (hint_Parse it) = None \<Longrightarrow> fst (hints_loop hint_Parse its stmt c) = None"
proof (induction its arbitrary: stmt c)
  case Nil
  then show ?case by simp
next
  case (Cons it rest)
  then show ?case
    by (auto simp add: Let_def split: prod.splits option.splits)
qed

lemma unat_paramsCount: "unat (word_of_nat n :: uint16) = n mod 65536"
  by (simp add: unat_of_nat)

text \<open>What handlePrepare stores when the statement parses and no write of the hint loop fails.\<close>

lemma handlePrepare_stored:
  assumes "ParseOneStmt query = (Some node, None)"
    and "hints_loop hint_Parse (node_Hints node)
           \<lparr>StatementID = statementID l + 1, PrepareStmt = query, ParamsCount = 0,
              ParamsType = [], BindVars = None, Hints = [], StmtNode_of = None\<rparr>
           (recycleReadPacket c) = (None, stmt1, c2)"
  shows "\<exists>d. stmts (fst (snd (handlePrepare ParseOneStmt hint_Parse l c (ctx\<lparr>Data := b # query\<rparr>))))
              = (stmts l)(statementID l + 1 \<mapsto> d)
           \<and> StatementID d = statementID l + 1
           \<and> PrepareStmt d = query
           \<and> ParamsCount d = word_of_nat (strings_Count query (CHR ''?''))
           \<and> length (ParamsType d) = unat (ParamsCount d)"
  using assms hints_loop_keeps [OF assms(2)]
  by (auto simp add: handlePrepare_def Let_def word_gt_0 split: prod.splits)

lemma handlePrepare_not_stored:
  assumes "ParseOneStmt query = (Some node, None)"
    and "hints_loop hint_Parse (node_Hints node)
           \<lparr>StatementID = statementID l + 1, PrepareStmt = query, ParamsCount = 0,
              ParamsType = [], BindVars = None, Hints = [], StmtNode_of = None\<rparr>
           (recycleReadPacket c) = (Some wErr, stmt1, c2)"
  shows "handlePrepare ParseOneStmt hint_Parse l c (ctx\<lparr>Data := b # query\<rparr>)
           = (Returned (Some wErr), l\<lparr>statementID := statementID l + 1\<rparr>, c2)"
  using assms
  by (auto simp add: handlePrepare_def Let_def split: prod.splits)

lemma count_placeholder_list:
  "strings_Count (concat (replicate n ''?,'')) (CHR ''?'') = n"
  by (induction n) (simp_all add: strings_Count_def)

lemma count_many_placeholders: "strings_Count many_placeholders (CHR ''?'') = 65536"
  using count_placeholder_list [of 65535]
  by (simp add: many_placeholders_def strings_Count_def)

text \<open>
  C6. For every COM_STMT_PREPARE whose SQL text parses: the descriptor the handler stores,
  under the new statement id, holds the raw text, its ParamsCount is the number of '?' in
  the raw text reduced modulo 65536 (the conversion to uint16), hence that number itself
  when it is below 65536, and its ParamsType has length ParamsCount. The registry changes
  in no other way. When every hint of the statement parses, the descriptor is stored,
  whatever the result of writing the prepare response.
\<close>

theorem handlePrepare_params_count:
  assumes "ParseOneStmt query = (Some node, None)"
  shows "(case handlePrepare ParseOneStmt hint_Parse l c (ctx\<lparr>Data := b # query\<rparr>) of
            (ret, l', c') \<Rightarrow>
              (stmts l' = stmts l
               \<or> (\<exists>d. stmts l' = (stmts l)(statementID l + 1 \<mapsto> d)
                     \<and> StatementID d = statementID l + 1
                     \<and> PrepareStmt d = query
                     \<and> unat (ParamsCount d) = strings_Count query (CHR ''?'') mod 65536
                     \<and> (strings_Count query (CHR ''?'') < 65536 \<longrightarrow>
                          unat (ParamsCount d) = strings_Count query (CHR ''?''))
                     \<and> length (ParamsType d) = unat (ParamsCount d)))
              \<and> ((\<forall>it\<in>set (node_Hints node). snd (hint_Parse it) = None) \<longrightarrow>
                   (\<exists>d. stmts l' = (stmts l)(statementID l + 1 \<mapsto> d)
                      \<and> StatementID d = statementID l + 1
                      \<and> PrepareStmt d = query
                      \<and> unat (ParamsCount d) = strings_Count query (CHR ''?'') mod 65536
                      \<and> length (ParamsType d) = unat (ParamsCount d))))"
proof -
  let ?stmt = "\<lparr>StatementID = statementID l + 1, PrepareStmt = query, ParamsCount = 0,
              ParamsType = [], BindVars = None, Hints = [], StmtNode_of = None\<rparr>"
  obtain r stmt1 c2 where h: "hints_loop hint_Parse (node_Hints node) ?stmt (recycleReadPacket c) = (r, stmt1, c2)"
    by (metis prod_cases3)
  have parsed: "\<forall>it\<in>set (node_Hints node). snd (hint_Parse it) = None \<Longrightarrow> r = None"
    using hints_loop_all_parse [of "node_Hints node" hint_Parse ?stmt "recycleReadPacket c"] h
    by simp
  show ?thesis
  proof (cases r)
    case None
    obtain d where d: "stmts (fst (snd (handlePrepare ParseOneStmt hint_Parse l c (ctx\<lparr>Data := b # query\<rparr>))))
              = (stmts l)(statementID l + 1 \<mapsto> d)"
      "StatementID d = statementID l + 1" "PrepareStmt d = query"
      "ParamsCount d = word_of_nat (strings_Count query (CHR ''?''))"
      "length (ParamsType d) = unat (ParamsCount d)"
      using None assms h
        handlePrepare_stored [where ParseOneStmt = ParseOneStmt and query = query and node = node
          and hint_Parse = hint_Parse and l = l and c = c and ?stmt1.0 = stmt1 and ?c2.0 = c2
          and ctx = ctx and b = b]
      by auto
    show ?thesis
      using d
      by (auto simp add: unat_paramsCount split: prod.splits)
  next
    case (Some wErr)
    with assms h parsed
      handlePrepare_not_stored [where ParseOneStmt = ParseOneStmt and query = query
        and node = node and hint_Parse = hint_Parse and l = l and c = c and wErr = wErr
        and ?stmt1.0 = stmt1 and ?c2.0 = c2 and ctx = ctx and b = b]
    show ?thesis
      by auto
  qed
qed

theorem handlePrepare_params_count_witness:
  "(\<lambda>query. (Some (StmtNode [''master'']), None)) ''SELECT ?, ?+?''
     = (Some (StmtNode [''master'']), None)
   \<and> list_all (\<lambda>it. snd (scenario_hint_Parse it) = None) (node_Hints (StmtNode [''master'']))
   \<and> (case handlePrepare (\<lambda>query. (Some (StmtNode [''master'']), None)) scenario_hint_Parse
              scenario_listener scenario_conn
              \<lparr>ConnectionID = 1, Data = CHR 0x16 # ''SELECT ?, ?+?''\<rparr> of
         (ret, l', c') \<Rightarrow>
           map_option PrepareStmt (stmts l' 1) = Some ''SELECT ?, ?+?''
           \<and> map_option ParamsCount (stmts l' 1) = Some 3
           \<and> map_option (\<lambda>d. length (ParamsType d)) (stmts l' 1) = Some 3)"
  using handlePrepare_params_count
      [where ParseOneStmt = "\<lambda>query. (Some (StmtNode [''master'']), None)"
      and query = "''SELECT ?, ?+?''" and node = "StmtNode [''master'']"
      and hint_Parse = scenario_hint_Parse and l = scenario_listener
      and c = scenario_conn and ctx = "\<lparr>ConnectionID = 1, Data = []\<rparr>" and b = "CHR 0x16"]
  by (simp add: handlePrepare_def strings_Count_def write_defs writePacket_def
      scenario_conn_def scenario_listener_def scenario_hint_Parse_def Let_def)

text \<open>
  With 65536 placeholders the stored ParamsCount is 0, not the number of '?' in the text.
\<close>

theorem handlePrepare_params_count_wraps:
  "fst (handlePrepare scenario_ParseOneStmt scenario_hint_Parse scenario_listener scenario_conn
          \<lparr>ConnectionID = 1, Data = CHR 0x16 # many_placeholders\<rparr>) = Returned None
   \<and> map_option ParamsCount
         (stmts (fst (snd (handlePrepare scenario_ParseOneStmt scenario_hint_Parse
                             scenario_listener scenario_conn
                             \<lparr>ConnectionID = 1, Data = CHR 0x16 # many_placeholders\<rparr>))) 1)
       = Some 0
   \<and> strings_Count many_placeholders (CHR ''?'') = 65536"
  by (simp add: handlePrepare_def count_many_placeholders write_defs writePacket_def
      scenario_conn_def scenario_listener_def scenario_ParseOneStmt_def
      scenario_hint_Parse_def Let_def)

section \<open>Properties of handleStmtExecute\<close>

lemma handleStmtExecute_body_registry:
  "fst (snd (handleStmtExecute_body ExecutorComStmtExecute stmtID err reg c)) =
     (case err of
        Some e \<Rightarrow> reg
      | None \<Rightarrow>
          (case reg stmtID of
             None \<Rightarrow> reg
           | Some prepareStmt \<Rightarrow> reg(stmtID \<mapsto> snd (ExecutorComStmtExecute prepareStmt))))"
  by (simp add: handleStmtExecute_body_def Let_def split: option.splits prod.splits)

text \<open>
  C4. For every COM_STMT_EXECUTE whose statement id is not 0 and is registered when the
  packet has been parsed: whatever the parse error, the executor's answer and the results
  of the writes, and also when the handler panics, afterwards the registry holds under that
  id the statement as the executor left it (as the parser left it, when parsing failed)
  with BindVars a new empty map allocated with capacity ParamsCount.
\<close>

theorem handleStmtExecute_resets_BindVars:
  assumes "parseComStmtExecute (stmts l) (Data ctx) = (stmtID, err, reg)"
    and "stmtID \<noteq> 0"
    and "reg stmtID = Some prepareStmt"
  shows "(case handleStmtExecute parseComStmtExecute ExecutorComStmtExecute l c ctx of
            (ret, l', c') \<Rightarrow>
              (\<exists>d. stmts l' stmtID = Some d
                 \<and> BindVars d = Some (GoMap (unat (ParamsCount d)) []))
              \<and> (let left = (if err = None then snd (ExecutorComStmtExecute prepareStmt)
                               else prepareStmt)
                 in stmts l' stmtID =
                      Some (left\<lparr>BindVars := Some (GoMap (unat (ParamsCount left)) [])\<rparr>)))"
proof -
  obtain ret reg1 c2 where b:
    "handleStmtExecute_body ExecutorComStmtExecute stmtID err reg
       (recycleReadPacket (startWriterBuffering c)) = (ret, reg1, c2)"
    by (metis prod_cases3)
  have "reg1 = (if err = None then reg(stmtID \<mapsto> snd (ExecutorComStmtExecute prepareStmt)) else reg)"
    using handleStmtExecute_body_registry
      [of ExecutorComStmtExecute stmtID err reg "recycleReadPacket (startWriterBuffering c)"]
      b assms(3)
    by (auto split: option.splits)
  then show ?thesis
    using assms b
    by (auto simp add: handleStmtExecute_def reset_BindVars_def Let_def)
qed

theorem handleStmtExecute_resets_BindVars_witness:
  "scenario_parse (stmts prepared_listener)
       (Data \<lparr>ConnectionID = 1, Data = [CHR 0x17, CHR 0x01, CHR 0x00, CHR 0x00, CHR 0x00]\<rparr>)
     = (1, None,
        (stmts prepared_listener)
          (1 \<mapsto> scenario_stmt\<lparr>BindVars := Some (GoMap 1 [(''v1'', ValueInt64 7)])\<rparr>))
   \<and> (1 :: uint32) \<noteq> 0
   \<and> (case handleStmtExecute scenario_parse scenario_executor prepared_listener scenario_conn
              \<lparr>ConnectionID = 1, Data = [CHR 0x17, CHR 0x01, CHR 0x00, CHR 0x00, CHR 0x00]\<rparr> of
         (ret, l', c') \<Rightarrow>
           ret = Returned None
           \<and> map_option BindVars (stmts l' 1) = Some (Some (GoMap 1 [])))"
proof -
  let ?ctx = "\<lparr>ConnectionID = 1, Data = [CHR 0x17, CHR 0x01, CHR 0x00, CHR 0x00, CHR 0x00]\<rparr>"
  let ?reg = "(stmts prepared_listener)
                (1 \<mapsto> scenario_stmt\<lparr>BindVars := Some (GoMap 1 [(''v1'', ValueInt64 7)])\<rparr>)"
  have h1: "scenario_parse (stmts prepared_listener) (Data ?ctx) = (1, None, ?reg)"
    by (simp add: scenario_parse_def readUint32_def prepared_listener_def scenario_stmt_def)
  have h2: "(1 :: uint32) \<noteq> 0"
    by simp
  have h3: "?reg 1 = Some (scenario_stmt\<lparr>BindVars := Some (GoMap 1 [(''v1'', ValueInt64 7)])\<rparr>)"
    by simp
  show ?thesis
    using h1 h2 h3
      handleStmtExecute_resets_BindVars [where parseComStmtExecute = scenario_parse
        and l = prepared_listener and ctx = ?ctx and stmtID = 1 and err = None and reg = ?reg
        and prepareStmt = "scenario_stmt\<lparr>BindVars := Some (GoMap 1 [(''v1'', ValueInt64 7)])\<rparr>"
        and ExecutorComStmtExecute = scenario_executor and c = scenario_conn]
    by (simp add: handleStmtExecute_def handleStmtExecute_body_def scenario_executor_def
        reset_BindVars_def scenario_stmt_def write_defs writePacket_def scenario_conn_def Let_def)
qed

text \<open>
  A listener whose counter has reached 0xFFFFFFFF hands out id 0 at the next prepare; an
  execute of that statement leaves the bind variables of the packet in it, where a new
  empty map would be \<open>GoMap 1 []\<close>.
\<close>

theorem handleStmtExecute_statement_zero_keeps_BindVars:
  "map_option StatementID (stmts wrapped_listener 0) = Some 0
   \<and> fst (handleStmtExecute scenario_parse scenario_executor wrapped_listener scenario_conn
            \<lparr>ConnectionID = 1, Data = [CHR 0x17, CHR 0x00, CHR 0x00, CHR 0x00, CHR 0x00]\<rparr>)
       = Returned None
   \<and> map_option BindVars
         (stmts (fst (snd (handleStmtExecute scenario_parse scenario_executor wrapped_listener
                             scenario_conn
                             \<lparr>ConnectionID = 1,
                                Data = [CHR 0x17, CHR 0x00, CHR 0x00, CHR 0x00, CHR 0x00]\<rparr>))) 0)
       = Some (Some (GoMap 1 [(''v1'', ValueInt64 7)]))"
  by (simp add: wrapped_listener_def scenario_ParseOneStmt_def scenario_hint_Parse_def
      handlePrepare_def handleStmtExecute_def
      handleStmtExecute_body_def scenario_parse_def scenario_executor_def readUint32_def
      strings_Count_def write_defs writePacket_def scenario_conn_def Let_def)

end
